theory Spec2Isabelle
  imports Complex_Main "HOL-Library.Multiset"
begin

section \<open>port-wait: waiting for TCP ports and HTTP endpoints with retry and backoff\<close>

text \<open>
  A shallow embedding of \<^verbatim>\<open>src/port_wait/waiter.py\<close> and of the success computation of
  \<^verbatim>\<open>src/port_wait/cli.py\<close>.

  Conventions of the embedding.
  \<^item> Python floats (times, intervals) are the finite ones, modelled as \<^typ>\<open>real\<close> (there is
    no NaN and no infinity); Python ints are \<^typ>\<open>int\<close>; \<^verbatim>\<open>Optional[str]\<close> is
    \<^typ>\<open>string option\<close>.
  \<^item> A \<^verbatim>\<open>str\<close> is a \<^typ>\<open>string\<close>, a list of 8-bit characters. The embedding looks into a
    string only to compare it with the ASCII prefixes of a URL and to cut it at a colon,
    which gives the same on the code points of a \<^verbatim>\<open>str\<close> and on its UTF-8 bytes; what
    \<^verbatim>\<open>int\<close> makes of a string is left to the environment.
  \<^item> An exception is a value of type \<open>exn\<close>; a function that may raise returns
    \<open>exn + 'a\<close>, with \<open>Inl\<close> for the raised exception.
  \<^item> The outside world (wall clock, sockets, HTTP, standard output) is an explicit state
    \<open>world\<close> that is threaded through every call, together with the record \<open>env\<close> of the
    answers that the outside and the Python runtime give.
  \<^item> The \<^verbatim>\<open>while\<close> loop of \<^verbatim>\<open>wait_for_target\<close> may run forever; it is a partial function
    into \<open>option\<close>, where \<open>None\<close> means that the call never returns.
\<close>

subsection \<open>WaitResult\<close>

record WaitResult =
  success :: bool
  target :: string
  attempts :: int
  elapsed :: real
  error :: "string option"

text \<open>The values that appear in the dictionary built by \<^verbatim>\<open>to_dict\<close>.\<close>

datatype pyval = PyBool bool | PyStr string | PyInt int | PyFloat real | PyNone

text \<open>
  Python's \<^verbatim>\<open>round(x, ndigits)\<close> on a float rounds the exact value of \<open>x\<close> to the
  nearest multiple of \<open>10 ^ -ndigits\<close>, a tie going to the even digit.
\<close>

definition round_half_even :: "real \<Rightarrow> int" where
  "round_half_even x =
     (let f = \<lfloor>x\<rfloor>; d = x - of_int f
      in if d < 1 / 2 then f
         else if 1 / 2 < d then f + 1
         else if even f then f else f + 1)"

definition py_round :: "real \<Rightarrow> nat \<Rightarrow> real" where
  "py_round x ndigits = of_int (round_half_even (x * 10 ^ ndigits)) / 10 ^ ndigits"

text \<open>A Python dict literal keeps its keys in the order written: an association list.\<close>

definition to_dict :: "WaitResult \<Rightarrow> (string \<times> pyval) list" where
  "to_dict self =
     [(''success'', PyBool (success self)),
      (''target'', PyStr (target self)),
      (''attempts'', PyInt (attempts self)),
      (''elapsed_seconds'', PyFloat (py_round (elapsed self) 2)),
      (''error'', (case error self of None \<Rightarrow> PyNone | Some e \<Rightarrow> PyStr e))]"

subsection \<open>Strings\<close>

text \<open>\<^verbatim>\<open>s.startswith(p)\<close>.\<close>

definition startswith :: "string \<Rightarrow> string \<Rightarrow> bool" where
  "startswith s p = (take (length p) s = p)"

text \<open>
  \<^verbatim>\<open>s.rsplit(sep, 1)\<close> for a separator of one character: the string is cut at the last
  occurrence of the separator; without an occurrence the list holds the string alone.
\<close>

definition rsplit :: "string \<Rightarrow> char \<Rightarrow> string list" where
  "rsplit s sep =
     (if sep \<in> set s
      then [rev (tl (dropWhile (\<lambda>c. c \<noteq> sep) (rev s))), rev (takeWhile (\<lambda>c. c \<noteq> sep) (rev s))]
      else [s])"

subsection \<open>Exceptions\<close>

text \<open>
  The exception classes the code distinguishes, and \<^verbatim>\<open>OverflowError\<close>. \<^verbatim>\<open>socket.gaierror\<close>
  and \<^verbatim>\<open>socket.timeout\<close> are subclasses of \<^verbatim>\<open>OSError\<close>; \<open>OtherError\<close> stands for any
  other exception that is neither a \<^verbatim>\<open>ValueError\<close> nor an \<^verbatim>\<open>OSError\<close>.
\<close>

datatype exn = ValueError | OverflowError | Gaierror | SocketTimeout | OSError | OtherError

subsection \<open>The outside world\<close>

text \<open>
  What the program does to the outside, in the order it does it: a TCP connection attempt
  (host, port), an HTTP request (method, URL, headers), a sleep that returned (with the
  length asked for), a line printed.
\<close>

datatype call =
    TcpConnect string int
  | HttpRequest string string "(string \<times> string) list"
  | Sleep real
  | Print string

text \<open>
  The state of the outside as one caller sees it: the wall clock and the calls made so
  far.
\<close>

record world =
  now :: real
  calls :: "call list"

text \<open>
  The answers of the outside and of the runtime; all but the formats may depend on the
  clock and on the calls made before.
  \<^item> \<open>connect_ex\<close> is the socket layer behind \<^verbatim>\<open>check_tcp_port\<close> (create the socket, set the
    timeout, \<^verbatim>\<open>connect_ex\<close>, close), given host, port and connection timeout: the
    exception raised or the integer returned by \<^verbatim>\<open>connect_ex\<close>, and the time it took.
  \<^item> \<open>request\<close> is \<^verbatim>\<open>requests.request\<close>, given method, URL, headers and timeout: the
    exception raised or the status code of the response, and the time it took.
  \<^item> \<open>py_int\<close> is \<^verbatim>\<open>int\<close> on a \<^verbatim>\<open>str\<close>: the exception raised or the integer.
  \<^item> \<open>sleep\<close> is \<^verbatim>\<open>time.sleep\<close>, given the length asked for: the exception raised (for a
    negative length, and for one that the clock of the platform cannot hold), or the
    time that has passed when it returns.
  \<^item> \<open>tick\<close> is the time that passes from one reading of \<^verbatim>\<open>time.time()\<close> until the
    program does the next thing to the outside (the next reading included).
  \<^item> \<open>str_float\<close> is \<^verbatim>\<open>str\<close> on a float and \<open>fmt_1f\<close> the format \<^verbatim>\<open>:.1f\<close>.
\<close>

record env =
  connect_ex :: "world \<Rightarrow> string \<Rightarrow> int \<Rightarrow> real \<Rightarrow> (exn + int) \<times> real"
  request :: "world \<Rightarrow> string \<Rightarrow> string \<Rightarrow> (string \<times> string) list \<Rightarrow> real \<Rightarrow> (exn + int) \<times> real"
  py_int :: "string \<Rightarrow> exn + int"
  sleep :: "world \<Rightarrow> real \<Rightarrow> exn + real"
  tick :: "world \<Rightarrow> real"
  str_float :: "real \<Rightarrow> string"
  fmt_1f :: "real \<Rightarrow> string"

text \<open>\<^verbatim>\<open>time.time()\<close>: the reading, and the world when the program goes on.\<close>

definition after_reading :: "env \<Rightarrow> world \<Rightarrow> world" where
  "after_reading e w = w\<lparr>now := now w + tick e w\<rparr>"

definition time_time :: "env \<Rightarrow> world \<Rightarrow> real \<times> world" where
  "time_time e w = (now w, after_reading e w)"

text \<open>\<^verbatim>\<open>time.sleep(secs)\<close>: the exception it raises, or the world when it returns.\<close>

definition time_sleep :: "env \<Rightarrow> real \<Rightarrow> world \<Rightarrow> exn + world" where
  "time_sleep e secs w =
     (case sleep e w secs of
        Inl x \<Rightarrow> Inl x
      | Inr passed \<Rightarrow> Inr (w\<lparr>now := now w + passed, calls := calls w @ [Sleep secs]\<rparr>))"

definition print :: "string \<Rightarrow> world \<Rightarrow> world" where
  "print line w = w\<lparr>calls := calls w @ [Print line]\<rparr>"

text \<open>\<^verbatim>\<open>str(n)\<close> for an int.\<close>

fun str_nat :: "nat \<Rightarrow> string" where
  "str_nat n =
     (if n < 10 then [''0123456789'' ! n]
      else str_nat (n div 10) @ [''0123456789'' ! (n mod 10)])"

declare str_nat.simps [simp del]

definition str_int :: "int \<Rightarrow> string" where
  "str_int i = (if i < 0 then CHR ''-'' # str_nat (nat (- i)) else str_nat (nat i))"

subsection \<open>PortWaiter\<close>

record PortWaiter =
  timeout :: real
  initial_interval :: real
  max_interval :: real
  connection_timeout :: real

text \<open>
  The keyword arguments \<^verbatim>\<open>wait_for_target\<close> reads; \<open>None\<close> is a key that is absent (or,
  for \<open>headers\<close>, present with the value \<^verbatim>\<open>None\<close>). The field \<open>http_method\<close> is the
  key \<^verbatim>\<open>"method"\<close>.
\<close>

record kwargs =
  expected_status :: "int option"
  http_method :: "string option"
  headers :: "(string \<times> string) list option"

text \<open>
  \<^verbatim>\<open>check_tcp_port\<close>: true when \<^verbatim>\<open>connect_ex\<close> returns 0; \<^verbatim>\<open>socket.gaierror\<close>,
  \<^verbatim>\<open>socket.timeout\<close> and \<^verbatim>\<open>OSError\<close> give false, any other exception propagates.
\<close>

definition check_tcp_port ::
  "env \<Rightarrow> PortWaiter \<Rightarrow> string \<Rightarrow> int \<Rightarrow> world \<Rightarrow> (exn + bool) \<times> world" where
  "check_tcp_port e self host port w =
     (case connect_ex e w host port (connection_timeout self) of
        (reply, d) \<Rightarrow>
          (let w' = w\<lparr>now := now w + d, calls := calls w @ [TcpConnect host port]\<rparr>
           in case reply of
                Inr result \<Rightarrow> (Inr (result = 0), w')
              | Inl x \<Rightarrow>
                  (if x = Gaierror \<or> x = SocketTimeout \<or> x = OSError then (Inr False, w')
                   else (Inl x, w'))))"

text \<open>
  \<^verbatim>\<open>check_http_endpoint\<close>: true when the status code of the response is the expected one;
  every exception gives false.
\<close>

definition check_http_endpoint ::
  "env \<Rightarrow> PortWaiter \<Rightarrow> string \<Rightarrow> int \<Rightarrow> string \<Rightarrow> (string \<times> string) list option \<Rightarrow> world
     \<Rightarrow> bool \<times> world" where
  "check_http_endpoint e self url expected meth hdrs w =
     (let hs = (case hdrs of None \<Rightarrow> [] | Some h \<Rightarrow> h)
      in case request e w meth url hs (connection_timeout self) of
           (reply, d) \<Rightarrow>
             (let w' = w\<lparr>now := now w + d, calls := calls w @ [HttpRequest meth url hs]\<rparr>
              in case reply of
                   Inr status_code \<Rightarrow> (status_code = expected, w')
                 | Inl x \<Rightarrow> (False, w')))"

text \<open>
  One probe of the target (lines 68 to 78 of \<^verbatim>\<open>wait_for_target\<close>): the value assigned to
  \<^verbatim>\<open>success\<close>, or the exception raised. An HTTP probe never raises; on the TCP side the
  unpacking of \<^verbatim>\<open>rsplit\<close>, \<^verbatim>\<open>int(port)\<close> and \<^verbatim>\<open>check_tcp_port\<close> may.
\<close>

definition is_http :: "string \<Rightarrow> bool" where
  "is_http tgt = (startswith tgt ''http://'' \<or> startswith tgt ''https://'')"

definition probe ::
  "env \<Rightarrow> PortWaiter \<Rightarrow> string \<Rightarrow> kwargs \<Rightarrow> world \<Rightarrow> (exn + bool) \<times> world" where
  "probe e self tgt kw w =
     (if is_http tgt then
        (case check_http_endpoint e self tgt
                (case expected_status kw of None \<Rightarrow> 200 | Some s \<Rightarrow> s)
                (case http_method kw of None \<Rightarrow> ''GET'' | Some m \<Rightarrow> m)
                (headers kw) w of
           (ok, w') \<Rightarrow> (Inr ok, w'))
      else
        (case rsplit tgt CHR '':'' of
           [host, port] \<Rightarrow>
             (case py_int e port of
                Inl x \<Rightarrow> (Inl x, w)
              | Inr p \<Rightarrow> check_tcp_port e self host p w)
         | _ \<Rightarrow> (Inl ValueError, w)))"

definition invalid_target_format :: string where
  "invalid_target_format = ''Invalid target format. Use host:port or http(s)://url''"

text \<open>
  The progress line of verbose mode (lines 86 and 87), printed after failed attempt
  number \<open>n\<close> and before the sleep of length \<open>interval\<close>.
\<close>

definition announce :: "env \<Rightarrow> string \<Rightarrow> bool \<Rightarrow> int \<Rightarrow> real \<Rightarrow> world \<Rightarrow> world" where
  "announce e tgt verbose n interval w =
     (if verbose
      then print (''Attempt '' @ str_int n @ '': '' @ tgt @ '' not ready, retrying in ''
                  @ fmt_1f e interval @ ''s...'') w
      else w)"

text \<open>
  The \<^verbatim>\<open>while\<close> loop of \<^verbatim>\<open>wait_for_target\<close>, from its test on. The loop variables are
  the number \<open>n\<close> of attempts so far and \<open>interval\<close>; the result is the WaitResult
  returned or the exception that leaves the function, with the world at that moment.
  The clock is read for the test of the loop (line 65) and again for the elapsed time of
  each result (lines 80, 84 and 92). A \<^verbatim>\<open>ValueError\<close> raised by the TCP probe is caught
  and reported as an invalid target; the sleep is not inside the \<^verbatim>\<open>try\<close>, and what it
  raises propagates.
\<close>

partial_function (option) retry_loop ::
  "env \<Rightarrow> PortWaiter \<Rightarrow> string \<Rightarrow> bool \<Rightarrow> kwargs \<Rightarrow> real \<Rightarrow> int \<Rightarrow> real \<Rightarrow> world
     \<Rightarrow> ((exn + WaitResult) \<times> world) option" where
  "retry_loop e self tgt verbose kw start_time n interval w =
     (case time_time e w of
        (t, w0) \<Rightarrow>
          (if t - start_time < timeout self then
             (case probe e self tgt kw w0 of
                (Inl x, w1) \<Rightarrow>
                  (if x = ValueError then
                     (case time_time e w1 of
                        (t1, w2) \<Rightarrow>
                          Some (Inr \<lparr>success = False, target = tgt, attempts = n + 1,
                                     elapsed = t1 - start_time,
                                     error = Some invalid_target_format\<rparr>, w2))
                   else Some (Inl x, w1))
              | (Inr ok, w1) \<Rightarrow>
                  (if ok then
                     (case time_time e w1 of
                        (t1, w2) \<Rightarrow>
                          Some (Inr \<lparr>success = True, target = tgt, attempts = n + 1,
                                     elapsed = t1 - start_time, error = None\<rparr>, w2))
                   else
                     (let w2 = announce e tgt verbose (n + 1) interval w1
                      in case time_sleep e interval w2 of
                           Inl x \<Rightarrow> Some (Inl x, w2)
                         | Inr w3 \<Rightarrow>
                             retry_loop e self tgt verbose kw start_time (n + 1)
                               (min (interval * 2) (max_interval self)) w3)))
           else
             (case time_time e w0 of
                (t1, w1) \<Rightarrow>
                  Some (Inr \<lparr>success = False, target = tgt, attempts = n,
                             elapsed = t1 - start_time,
                             error = Some (''Timeout after '' @ str_float e (timeout self)
                                           @ ''s'')\<rparr>, w1))))"

text \<open>
  \<^verbatim>\<open>wait_for_target\<close>: the start time is read (line 61), then the loop runs with no
  attempts yet and the initial interval.
\<close>

definition wait_for_target ::
  "env \<Rightarrow> PortWaiter \<Rightarrow> world \<Rightarrow> string \<Rightarrow> bool \<Rightarrow> kwargs
     \<Rightarrow> ((exn + WaitResult) \<times> world) option" where
  "wait_for_target e self w tgt verbose kw =
     (case time_time e w of
        (start_time, w0) \<Rightarrow>
          retry_loop e self tgt verbose kw start_time 0 (initial_interval self) w0)"

declare retry_loop.simps [code]

subsection \<open>Several targets\<close>

text \<open>
  The \<^verbatim>\<open>for\<close> loop of \<^verbatim>\<open>wait_for_multiple\<close> over \<^verbatim>\<open>as_completed(futures)\<close>. The futures
  come in the order in which \<^verbatim>\<open>as_completed\<close> yields them, each with what its call to
  \<^verbatim>\<open>wait_for_target\<close> produced; \<^verbatim>\<open>future.result()\<close> raises the exception of a call that
  raised. In ANY mode the first successful result ends the loop.
\<close>

fun collect :: "bool \<Rightarrow> (exn + WaitResult) list \<Rightarrow> WaitResult list \<Rightarrow> exn + WaitResult list" where
  "collect all_mode [] results = Inr results"
| "collect all_mode (future # futures) results =
     (case future of
        Inl x \<Rightarrow> Inl x
      | Inr result \<Rightarrow>
          (if \<not> all_mode \<and> success result then Inr (results @ [result])
           else collect all_mode futures (results @ [result])))"

text \<open>Whether that loop ends at line 109, with the shutdown of the executor.\<close>

fun stops_early :: "bool \<Rightarrow> (exn + WaitResult) list \<Rightarrow> bool" where
  "stops_early all_mode [] = False"
| "stops_early all_mode (future # futures) =
     (case future of
        Inl x \<Rightarrow> False
      | Inr result \<Rightarrow>
          (if \<not> all_mode \<and> success result then True
           else stops_early all_mode futures))"

text \<open>
  What the program does not determine about the run of the thread pool:
  \<^item> \<open>yield_order\<close>, the order in which \<^verbatim>\<open>as_completed\<close> yields the futures, a
    permutation of the indices of the targets (a number in it that is not such an index
    stands for nothing and is passed over);
  \<^item> \<open>start_delay\<close>, for each future, the time from the call of \<^verbatim>\<open>wait_for_multiple\<close> to
    the moment a worker starts on it (the executor has as many workers as targets, but
    it gives a new work item to an idle worker where there is one, so a call may start
    only when an earlier one has ended);
  \<^item> \<open>pending\<close>, the futures that no worker has started on when the loop collects its
    first success in ANY mode.
\<close>

record sched =
  yield_order :: "nat list"
  start_delay :: "nat \<Rightarrow> real"
  pending :: "nat list"

definition worker_start :: "world \<Rightarrow> sched \<Rightarrow> nat \<Rightarrow> world" where
  "worker_start w s i = w\<lparr>now := now w + start_delay s i\<rparr>"

text \<open>
  What a call of \<^verbatim>\<open>wait_for_multiple\<close> leaves behind: the list returned or the exception
  raised, the wall clock at that moment, and for each target (in the order of submission)
  the world of the worker when its call to \<^verbatim>\<open>wait_for_target\<close> ended, or \<open>None\<close> when the
  future was cancelled and the call was never made.
\<close>

record pool_return =
  returned :: "exn + WaitResult list"
  return_time :: real
  worker_worlds :: "world option list"

text \<open>
  \<^verbatim>\<open>wait_for_multiple\<close>. The executor is created with \<^verbatim>\<open>max_workers=len(targets)\<close>, and
  \<^verbatim>\<open>ThreadPoolExecutor\<close> raises \<^verbatim>\<open>ValueError\<close> when \<^verbatim>\<open>max_workers\<close> is not positive. The
  workers share nothing but the read-only waiter, so each call of \<^verbatim>\<open>wait_for_target\<close>
  runs on its own from the world in which it starts.

  \<^verbatim>\<open>executor.shutdown(wait=False, cancel_futures=True)\<close> cancels the futures that are
  pending, and only those: a call that is running cannot be cancelled. The \<^verbatim>\<open>with\<close> block
  is then left through the executor's \<^verbatim>\<open>__exit__\<close>, which is \<^verbatim>\<open>shutdown(wait=True)\<close> and
  joins every worker. So when the loop over the futures that have started ends at line
  109, the pending futures never run, and the function returns when the last call that
  has started has ended. Otherwise (ALL mode, no success among them, or an exception out
  of \<^verbatim>\<open>future.result()\<close>) every future runs, and the function returns when the last call
  has ended. It never returns when a call that has started never ends.
\<close>

definition wait_for_multiple ::
  "env \<Rightarrow> PortWaiter \<Rightarrow> world \<Rightarrow> (string \<times> kwargs) list \<Rightarrow> bool \<Rightarrow> bool \<Rightarrow> sched
     \<Rightarrow> pool_return option" where
  "wait_for_multiple e self w targets all_mode verbose s =
     (if length targets = 0 then
        Some \<lparr>returned = Inl ValueError, return_time = now w, worker_worlds = []\<rparr>
      else
        (let n = length targets;
             future = (\<lambda>i. wait_for_target e self (worker_start w s i) (fst (targets ! i))
                              verbose (snd (targets ! i)));
             started = filter (\<lambda>i. i \<notin> set (pending s)) [0..<n];
             first = map (\<lambda>i. fst (the (future i)))
                       (filter (\<lambda>i. i \<in> set started) (yield_order s))
         in if list_ex (\<lambda>i. future i = None) started then None
            else if stops_early all_mode first then
              Some \<lparr>returned = collect all_mode first [],
                    return_time = fold max (map (\<lambda>i. now (snd (the (future i)))) started) (now w),
                    worker_worlds =
                      map (\<lambda>i. if i \<in> set started then map_option snd (future i) else None)
                        [0..<n]\<rparr>
            else if list_ex (\<lambda>i. future i = None) [0..<n] then None
            else
              Some \<lparr>returned = collect all_mode
                                 (map (\<lambda>i. fst (the (future i)))
                                    (filter (\<lambda>i. i < n) (yield_order s))) [],
                    return_time = fold max (map (\<lambda>i. now (snd (the (future i)))) [0..<n]) (now w),
                    worker_worlds = map (\<lambda>i. map_option snd (future i)) [0..<n]\<rparr>))"

text \<open>The overall success computed by \<^verbatim>\<open>main\<close> in \<^verbatim>\<open>cli.py\<close> (lines 63 to 65).\<close>

definition overall_success :: "bool \<Rightarrow> WaitResult list \<Rightarrow> bool" where
  "overall_success any_mode results =
     (let all_success = list_all success results;
          any_success = list_ex success results
      in if any_mode then any_success else all_success)"

subsection \<open>The backoff sequence of the specification\<close>

text \<open>
  The intervals as the specification lists them: the first is the initial interval, each
  next one is the double of the one before, capped by the maximal interval.
\<close>

fun backoff :: "PortWaiter \<Rightarrow> nat \<Rightarrow> real" where
  "backoff self 0 = initial_interval self"
| "backoff self (Suc k) = min (backoff self k * 2) (max_interval self)"

text \<open>The lengths of the sleeps among a list of calls, in order.\<close>

fun sleeps :: "call list \<Rightarrow> real list" where
  "sleeps [] = []"
| "sleeps (Sleep d # cs) = d # sleeps cs"
| "sleeps (c # cs) = sleeps cs"

text \<open>The probes among a list of calls, in order.\<close>

fun probes :: "call list \<Rightarrow> call list" where
  "probes [] = []"
| "probes (TcpConnect host p # cs) = TcpConnect host p # probes cs"
| "probes (HttpRequest m url hs # cs) = HttpRequest m url hs # probes cs"
| "probes (c # cs) = probes cs"

subsection \<open>Concrete settings\<close>

text \<open>
  The concrete settings read a character as the code point of its number. On a \<^verbatim>\<open>str\<close> of
  code points below 256, \<^verbatim>\<open>int\<close> (of Python 3.11, with its default limit of 4300 digits)
  does this: each of the code points 0x85 and 0xA0 counts as a space; the whitespace of C
  (space, tab, line feed, vertical tab, form feed, carriage return) is dropped at both
  ends; a sign may come first; then come decimal digits, where single underscores may
  separate digits. Anything else raises \<^verbatim>\<open>ValueError\<close>.
\<close>

definition int_whitespace :: "char \<Rightarrow> bool" where
  "int_whitespace c = ((of_char c :: nat) \<in> set [9, 10, 11, 12, 13, 32, 133, 160])"

definition strip :: "string \<Rightarrow> string" where
  "strip s = rev (dropWhile int_whitespace (rev (dropWhile int_whitespace s)))"

definition isdigit :: "char \<Rightarrow> bool" where
  "isdigit c = (48 \<le> (of_char c :: nat) \<and> (of_char c :: nat) \<le> 57)"

definition digit_value :: "char \<Rightarrow> int" where
  "digit_value c = int (of_char c) - 48"

fun digits_value :: "int \<Rightarrow> string \<Rightarrow> int option" where
  "digits_value acc [] = None"
| "digits_value acc [c] = (if isdigit c then Some (acc * 10 + digit_value c) else None)"
| "digits_value acc (c # d # cs) =
     (if isdigit c then
        (if d = CHR ''_'' then digits_value (acc * 10 + digit_value c) cs
         else digits_value (acc * 10 + digit_value c) (d # cs))
      else None)"

definition int_of_str :: "string \<Rightarrow> exn + int" where
  "int_of_str s =
     (case strip s of
        [] \<Rightarrow> Inl ValueError
      | c # cs \<Rightarrow>
          (if 4300 < length (filter isdigit (c # cs)) then Inl ValueError
           else
             (case (if c = CHR ''-'' then map_option uminus (digits_value 0 cs)
                    else if c = CHR ''+'' then digits_value 0 cs
                    else digits_value 0 (c # cs)) of
                None \<Rightarrow> Inl ValueError
              | Some n \<Rightarrow> Inr n)))"

text \<open>
  An outside where the host \<open>up\<close> accepts connections and every other host refuses them
  (\<^verbatim>\<open>connect_ex\<close> returns 111), where a port outside 0 to 65535 makes \<^verbatim>\<open>connect_ex\<close> raise
  \<^verbatim>\<open>OverflowError\<close>, where every URL answers 503, and where each probe takes a tenth of a
  second. The sleep raises \<^verbatim>\<open>ValueError\<close> for a negative length and \<^verbatim>\<open>OverflowError\<close> for
  one of \<open>2 ^ 63\<close> nanoseconds or more, and otherwise takes exactly as long as asked.
  Between two readings of the clock that follow each other no time passes. The two
  formats are right for the floats of these settings: \<open>str\<close> for a float that is a whole
  number of thousandths, not negative and below \<open>10 ^ 16\<close> (the digits after the point
  without the zeros at their end, but one digit at least), \<^verbatim>\<open>:.1f\<close> for one that is not
  negative.
\<close>

definition decimals :: "int \<Rightarrow> string" where
  "decimals f =
     (let a = ''0123456789'' ! nat (f div 100);
          b = ''0123456789'' ! nat (f div 10 mod 10);
          c = ''0123456789'' ! nat (f mod 10)
      in if f mod 100 = 0 then [a] else if f mod 10 = 0 then [a, b] else [a, b, c])"

definition some_env :: env where
  "some_env =
     \<lparr>connect_ex = (\<lambda>w host port t.
                      (if port < 0 \<or> 65535 < port then Inl OverflowError
                       else if host = ''up'' then Inr 0 else Inr 111, 1 / 10)),
      request = (\<lambda>w m url hs t. (Inr 503, 1 / 10)),
      py_int = int_of_str,
      sleep = (\<lambda>w secs. if secs < 0 then Inl ValueError
                         else if 2 ^ 63 \<le> secs * 10 ^ 9 then Inl OverflowError
                         else Inr secs),
      tick = (\<lambda>w. 0),
      str_float = (\<lambda>x. str_int (\<lfloor>x * 1000\<rfloor> div 1000) @ ''.'' @ decimals (\<lfloor>x * 1000\<rfloor> mod 1000)),
      fmt_1f = (\<lambda>x. str_int (round_half_even (x * 10) div 10) @ ''.''
                      @ str_int (round_half_even (x * 10) mod 10))\<rparr>"

text \<open>The same outside with a clock that is read a millisecond apart.\<close>

definition slow_clock_env :: env where
  "slow_clock_env = some_env\<lparr>tick := (\<lambda>w. 1 / 1000)\<rparr>"

definition waiter :: "real \<Rightarrow> PortWaiter" where
  "waiter t = \<lparr>timeout = t, initial_interval = 1 / 2, max_interval = 5, connection_timeout = 2\<rparr>"

definition start :: world where
  "start = \<lparr>now = 0, calls = []\<rparr>"

definition no_kwargs :: kwargs where
  "no_kwargs = \<lparr>expected_status = None, http_method = None, headers = None\<rparr>"

text \<open>
  Two targets, the first on the host that accepts connections, the second on a host that
  refuses them; and, for the waiter with timeout 2, what \<^verbatim>\<open>wait_for_target\<close> returns for
  each and the world it leaves. In the schedule both calls start at once, none is
  pending, and the first target completes first.
\<close>

definition two_targets :: "(string \<times> kwargs) list" where
  "two_targets = [(''up:80'', no_kwargs), (''down:81'', no_kwargs)]"

definition both_running :: sched where
  "both_running = \<lparr>yield_order = [0, 1], start_delay = (\<lambda>i. 0), pending = []\<rparr>"

definition up_result :: WaitResult where
  "up_result = \<lparr>success = True, target = ''up:80'', attempts = 1, elapsed = 1 / 10, error = None\<rparr>"

definition down_result :: WaitResult where
  "down_result = \<lparr>success = False, target = ''down:81'', attempts = 3, elapsed = 19 / 5,
                   error = Some ''Timeout after 2.0s''\<rparr>"

definition up_world :: world where
  "up_world = \<lparr>now = 1 / 10, calls = [TcpConnect ''up'' 80]\<rparr>"

definition down_world :: world where
  "down_world = \<lparr>now = 19 / 5,
                  calls = [TcpConnect ''down'' 81, Sleep (1 / 2), TcpConnect ''down'' 81, Sleep 1,
                           TcpConnect ''down'' 81, Sleep 2]\<rparr>"



text \<open>Two targets on the host that accepts connections, the second with a port too large.\<close>

definition port_out_of_range :: "(string \<times> kwargs) list" where
  "port_out_of_range = [(''up:80'', no_kwargs), (''up:70000'', no_kwargs)]"

section \<open>Properties\<close>

subsection \<open>Reasoning about the retry loop\<close>

text \<open>
  An induction rule for the runs of the loop that end: one case for each way an iteration
  can go. The exits are the timeout, the invalid target, an exception out of the probe,
  the success, and an exception out of the sleep; the last case is the next iteration.
\<close>

lemma retry_loop_induct [consumes 1, case_names stop invalid raised ready sleep_raised retry]:
  assumes run: "retry_loop e self tgt verbose kw st n i w = Some y"
    and stop: "\<And>n i w. \<not> now w - st < timeout self \<Longrightarrow>
        P n i w (Inr \<lparr>success = False, target = tgt, attempts = n,
                       elapsed = now (after_reading e w) - st,
                       error = Some (''Timeout after '' @ str_float e (timeout self) @ ''s'')\<rparr>,
                 after_reading e (after_reading e w))"
    and invalid: "\<And>n i w w1. now w - st < timeout self \<Longrightarrow>
        probe e self tgt kw (after_reading e w) = (Inl ValueError, w1) \<Longrightarrow>
        P n i w (Inr \<lparr>success = False, target = tgt, attempts = n + 1,
                       elapsed = now w1 - st,
                       error = Some invalid_target_format\<rparr>, after_reading e w1)"
    and raised: "\<And>n i w x w1. now w - st < timeout self \<Longrightarrow>
        probe e self tgt kw (after_reading e w) = (Inl x, w1) \<Longrightarrow> x \<noteq> ValueError \<Longrightarrow>
        P n i w (Inl x, w1)"
    and ready: "\<And>n i w w1. now w - st < timeout self \<Longrightarrow>
        probe e self tgt kw (after_reading e w) = (Inr True, w1) \<Longrightarrow>
        P n i w (Inr \<lparr>success = True, target = tgt, attempts = n + 1,
                       elapsed = now w1 - st, error = None\<rparr>, after_reading e w1)"
    and sleep_raised: "\<And>n i w w1 x. now w - st < timeout self \<Longrightarrow>
        probe e self tgt kw (after_reading e w) = (Inr False, w1) \<Longrightarrow>
        time_sleep e i (announce e tgt verbose (n + 1) i w1) = Inl x \<Longrightarrow>
        P n i w (Inl x, announce e tgt verbose (n + 1) i w1)"
    and retry: "\<And>n i w w1 w3 y. now w - st < timeout self \<Longrightarrow>
        probe e self tgt kw (after_reading e w) = (Inr False, w1) \<Longrightarrow>
        time_sleep e i (announce e tgt verbose (n + 1) i w1) = Inr w3 \<Longrightarrow>
        P (n + 1) (min (i * 2) (max_interval self)) w3 y \<Longrightarrow> P n i w y"
  shows "P n i w y"
proof -
  let ?Q = "\<lambda>e' self' tgt' verbose' kw' st' n i w y.
      e' = e \<and> self' = self \<and> tgt' = tgt \<and> verbose' = verbose \<and> kw' = kw \<and> st' = st
      \<longrightarrow> P n i w y"
  have "?Q e self tgt verbose kw st n i w y"
  proof (rule retry_loop.raw_induct [where P = ?Q, OF _ run], intro impI, elim conjE)
    fix f e' self' tgt' verbose' kw' st' n i w y
    assume IH: "\<And>e' self' tgt' verbose' kw' st' n i w y.
        f e' self' tgt' verbose' kw' st' n i w = Some y \<Longrightarrow>
        e' = e \<and> self' = self \<and> tgt' = tgt \<and> verbose' = verbose \<and> kw' = kw \<and> st' = st
          \<longrightarrow> P n i w y"
    assume eqs: "e' = e" "self' = self" "tgt' = tgt" "verbose' = verbose" "kw' = kw" "st' = st"
    assume body: "(case time_time e' w of
        (t, w0) \<Rightarrow>
          (if t - st' < timeout self' then
             (case probe e' self' tgt' kw' w0 of
                (Inl x, w1) \<Rightarrow>
                  (if x = ValueError then
                     (case time_time e' w1 of
                        (t1, w2) \<Rightarrow>
                          Some (Inr \<lparr>success = False, target = tgt', attempts = n + 1,
                                     elapsed = t1 - st',
                                     error = Some invalid_target_format\<rparr>, w2))
                   else Some (Inl x, w1))
              | (Inr ok, w1) \<Rightarrow>
                  (if ok then
                     (case time_time e' w1 of
                        (t1, w2) \<Rightarrow>
                          Some (Inr \<lparr>success = True, target = tgt', attempts = n + 1,
                                     elapsed = t1 - st', error = None\<rparr>, w2))
                   else
                     (let w2 = announce e' tgt' verbose' (n + 1) i w1
                      in case time_sleep e' i w2 of
                           Inl x \<Rightarrow> Some (Inl x, w2)
                         | Inr w3 \<Rightarrow>
                             f e' self' tgt' verbose' kw' st' (n + 1)
                               (min (i * 2) (max_interval self')) w3)))
           else
             (case time_time e' w0 of
                (t1, w1) \<Rightarrow>
                  Some (Inr \<lparr>success = False, target = tgt', attempts = n,
                             elapsed = t1 - st',
                             error = Some (''Timeout after '' @ str_float e' (timeout self')
                                           @ ''s'')\<rparr>, w1))))
      = Some y"
    let ?w0 = "after_reading e w"
    show "P n i w y"
    proof (cases "now w - st < timeout self")
      case False
      with body eqs have "y = (Inr \<lparr>success = False, target = tgt, attempts = n,
                   elapsed = now ?w0 - st,
                   error = Some (''Timeout after '' @ str_float e (timeout self) @ ''s'')\<rparr>,
                 after_reading e ?w0)"
        by (simp add: time_time_def)
      with stop [OF False] show ?thesis by simp
    next
      case True
      obtain r w1 where pr: "probe e self tgt kw ?w0 = (r, w1)"
        by (cases "probe e self tgt kw ?w0")
      show ?thesis
      proof (cases r)
        case (Inl x)
        show ?thesis
        proof (cases "x = ValueError")
          case True
          with body eqs \<open>now w - st < timeout self\<close> pr Inl
          have "y = (Inr \<lparr>success = False, target = tgt, attempts = n + 1,
                       elapsed = now w1 - st,
                       error = Some invalid_target_format\<rparr>, after_reading e w1)"
            by (simp add: time_time_def)
          with invalid [of w w1 n] \<open>now w - st < timeout self\<close> pr Inl True
          show ?thesis by simp
        next
          case False
          with body eqs \<open>now w - st < timeout self\<close> pr Inl
          have "y = (Inl x, w1)" by (simp add: time_time_def)
          with raised [of w x w1] \<open>now w - st < timeout self\<close> pr Inl False
          show ?thesis by simp
        qed
      next
        case (Inr ok)
        show ?thesis
        proof (cases ok)
          case True
          with body eqs \<open>now w - st < timeout self\<close> pr Inr
          have "y = (Inr \<lparr>success = True, target = tgt, attempts = n + 1,
                       elapsed = now w1 - st, error = None\<rparr>, after_reading e w1)"
            by (simp add: time_time_def)
          with ready [of w w1 n] \<open>now w - st < timeout self\<close> pr Inr True
          show ?thesis by simp
        next
          case False
          let ?w2 = "announce e tgt verbose (n + 1) i w1"
          show ?thesis
          proof (cases "time_sleep e i ?w2")
            case (Inl x)
            with body eqs \<open>now w - st < timeout self\<close> pr Inr False
            have "y = (Inl x, ?w2)" by (simp add: time_time_def Let_def)
            with sleep_raised [of w w1 i n x] \<open>now w - st < timeout self\<close> pr Inr False Inl
            show ?thesis by simp
          next
            case (Inr w3)
            with body eqs \<open>now w - st < timeout self\<close> pr \<open>r = Inr ok\<close> False
            have "f e self tgt verbose kw st (n + 1) (min (i * 2) (max_interval self)) w3 = Some y"
              by (simp add: time_time_def Let_def)
            from IH [OF this] have "P (n + 1) (min (i * 2) (max_interval self)) w3 y"
              by simp
            with retry [of w w1 i n w3 y] \<open>now w - st < timeout self\<close> pr \<open>r = Inr ok\<close> False Inr
            show ?thesis by simp
          qed
        qed
      qed
    qed
  qed
  then show ?thesis by simp
qed

subsection \<open>One iteration\<close>

text \<open>The first iteration of the loop, written out.\<close>

lemma wait_for_target_unfold:
  "wait_for_target e self w tgt verbose kw =
     (if tick e w < timeout self then
        (case probe e self tgt kw (after_reading e (after_reading e w)) of
           (Inl x, w1) \<Rightarrow>
             (if x = ValueError then
                Some (Inr \<lparr>success = False, target = tgt, attempts = 1,
                           elapsed = now w1 - now w,
                           error = Some invalid_target_format\<rparr>, after_reading e w1)
              else Some (Inl x, w1))
         | (Inr ok, w1) \<Rightarrow>
             (if ok then
                Some (Inr \<lparr>success = True, target = tgt, attempts = 1,
                           elapsed = now w1 - now w, error = None\<rparr>, after_reading e w1)
              else
                (let w2 = announce e tgt verbose 1 (initial_interval self) w1
                 in case time_sleep e (initial_interval self) w2 of
                      Inl x \<Rightarrow> Some (Inl x, w2)
                    | Inr w3 \<Rightarrow>
                        retry_loop e self tgt verbose kw (now w) 1
                          (min (initial_interval self * 2) (max_interval self)) w3)))
      else
        Some (Inr \<lparr>success = False, target = tgt, attempts = 0,
                   elapsed = now (after_reading e (after_reading e w)) - now w,
                   error = Some (''Timeout after '' @ str_float e (timeout self) @ ''s'')\<rparr>,
              after_reading e (after_reading e (after_reading e w))))"
  unfolding wait_for_target_def time_time_def prod.case
  by (subst retry_loop.simps)
    (simp add: time_time_def after_reading_def Let_def split: prod.splits sum.splits)

text \<open>A reading of the clock makes no call and moves the clock by the tick.\<close>

lemma calls_after_reading [simp]: "calls (after_reading e w) = calls w"
  by (simp add: after_reading_def)

lemma now_after_reading: "now (after_reading e w) = now w + tick e w"
  by (simp add: after_reading_def)

text \<open>\<^verbatim>\<open>rsplit\<close> cuts at the last separator.\<close>

lemma rsplit_parts:
  assumes "s = a @ sep # b" and "sep \<notin> set b"
  shows "rsplit s sep = [a, b]"
proof -
  let ?P = "\<lambda>c. c \<noteq> sep"
  have rev: "rev s = rev b @ sep # rev a"
    using assms(1) by simp
  have all: "\<forall>c\<in>set (rev b). ?P c"
    using assms(2) by auto
  have "takeWhile ?P (rev b @ sep # rev a) = takeWhile ?P (rev b)"
    by (rule takeWhile_tail) simp
  also have "\<dots> = rev b"
    using all by (simp add: takeWhile_eq_all_conv)
  finally have t: "takeWhile ?P (rev s) = rev b"
    by (simp only: rev)
  have "dropWhile ?P (rev b @ sep # rev a) = dropWhile ?P (rev b) @ sep # rev a"
    by (rule dropWhile_append3) simp
  also have "dropWhile ?P (rev b) = []"
    using all by (simp add: dropWhile_eq_Nil_conv)
  finally have d: "dropWhile ?P (rev s) = sep # rev a"
    by (simp only: rev append_Nil)
  have "sep \<in> set s"
    using assms(1) by simp
  then show ?thesis
    by (simp add: rsplit_def t d)
qed

text \<open>Evaluating the string functions on the targets of the examples.\<close>

lemma rsplit_examples:
  "rsplit ''invalid-target'' CHR '':'' = [''invalid-target'']"
  "rsplit ''up:80'' CHR '':'' = [''up'', ''80'']"
  "rsplit ''down:81'' CHR '':'' = [''down'', ''81'']"
  "rsplit ''up:70000'' CHR '':'' = [''up'', ''70000'']"
  "rsplit ''down:5432'' CHR '':'' = [''down'', ''5432'']"
  by (simp_all add: rsplit_def)

lemma int_of_str_examples:
  "int_of_str ''80'' = Inr 80"
  "int_of_str ''81'' = Inr 81"
  "int_of_str ''70000'' = Inr 70000"
  "int_of_str ''http'' = Inl ValueError"
  "int_of_str ''5432'' = Inr 5432"
  by (simp_all add: int_of_str_def strip_def int_whitespace_def isdigit_def digit_value_def)

lemma is_http_examples:
  "\<not> is_http ''invalid-target''"
  "\<not> is_http ''up:80''"
  "\<not> is_http ''down:81''"
  "\<not> is_http ''up:70000''"
  "\<not> is_http ''db:http''"
  "is_http ''http://x''"
  "\<not> is_http ''down:5432''"
  by (simp_all add: is_http_def startswith_def)

subsection \<open>The number of attempts\<close>

lemma retry_loop_attempts:
  assumes "retry_loop e self tgt verbose kw st n i w = Some y"
  shows "\<forall>r w'. y = (Inr r, w') \<longrightarrow>
           n \<le> attempts r \<and> (now w - st < timeout self \<longrightarrow> n + 1 \<le> attempts r)
           \<and> (\<not> now w - st < timeout self \<longrightarrow>
                attempts r = n \<and> \<not> success r \<and> calls w' = calls w
                \<and> error r = Some (''Timeout after '' @ str_float e (timeout self) @ ''s''))"
  using assms
proof (induction rule: retry_loop_induct)
  case (stop n i w)
  then show ?case by simp
next
  case (invalid n i w w1)
  then show ?case by simp
next
  case (raised n i w x w1)
  then show ?case by simp
next
  case (ready n i w w1)
  then show ?case by simp
next
  case (sleep_raised n i w w1 x)
  then show ?case by simp
next
  case (retry n i w w1 w3 y)
  from retry(4) have "\<forall>r w'. y = (Inr r, w') \<longrightarrow> n + 1 \<le> attempts r"
    by blast
  with retry(1) show ?case by auto
qed

text \<open>
  Claim C3, as stated, fails: with a timeout of zero the test of the loop is false at
  once, no probe is attempted and the result has zero attempts. Here the waiter has
  timeout 0, the target is well-formed and its host accepts connections.
\<close>

theorem attempts_zero_timeout_counterexample:
  "wait_for_target some_env (waiter 0) start ''up:80'' False no_kwargs =
     Some (Inr \<lparr>success = False, target = ''up:80'', attempts = 0, elapsed = 0,
                error = Some ''Timeout after 0.0s''\<rparr>, start)"
  by (simp add: wait_for_target_unfold after_reading_def waiter_def some_env_def start_def
      str_int_def str_nat.simps decimals_def)

text \<open>
  Claim C3, amended. The start time is read at line 61 and the clock is read again for
  the first test of the loop at line 65; \<open>tick e w\<close> is the time between the two. For
  every target and every waiter, the WaitResult that \<^verbatim>\<open>wait_for_target\<close> returns has at
  least one attempt when that time is less than the timeout. When it is not (a timeout
  that is near zero, zero or negative), no probe is attempted: the result has zero
  attempts, it is a failure with the error "Timeout after \<open>T\<close>s", and no call was made to
  the outside. With a timeout that is zero or negative and a clock that does not run
  backwards this is always so.
\<close>

theorem attempts_at_least_one:
  assumes "wait_for_target e self w tgt verbose kw = Some (Inr r, w')"
  shows "(tick e w < timeout self \<longrightarrow> 1 \<le> attempts r)
       \<and> (\<not> tick e w < timeout self \<longrightarrow>
            attempts r = 0 \<and> \<not> success r \<and> calls w' = calls w
            \<and> error r = Some (''Timeout after '' @ str_float e (timeout self) @ ''s''))
       \<and> (timeout self \<le> 0 \<and> 0 \<le> tick e w \<longrightarrow> attempts r = 0)"
proof -
  from assms have "retry_loop e self tgt verbose kw (now w) 0 (initial_interval self)
      (after_reading e w) = Some (Inr r, w')"
    by (simp add: wait_for_target_def time_time_def)
  from retry_loop_attempts [OF this]
  have inv: "(now (after_reading e w) - now w < timeout self \<longrightarrow> 0 + 1 \<le> attempts r)
      \<and> (\<not> now (after_reading e w) - now w < timeout self \<longrightarrow>
           attempts r = 0 \<and> \<not> success r \<and> calls w' = calls (after_reading e w)
           \<and> error r = Some (''Timeout after '' @ str_float e (timeout self) @ ''s''))"
    by blast
  have "now (after_reading e w) - now w = tick e w"
    by (simp add: now_after_reading)
  with inv show ?thesis
    by simp
qed

text \<open>The run for the first of the two targets.\<close>

lemma run_up:
  "wait_for_target some_env (waiter 2) start ''up:80'' False no_kwargs = Some (Inr up_result, up_world)"
  by (simp add: wait_for_target_unfold probe_def is_http_examples rsplit_examples
      int_of_str_examples check_tcp_port_def after_reading_def waiter_def some_env_def start_def
      up_result_def up_world_def)

theorem attempts_at_least_one_witness:
  "wait_for_target some_env (waiter 2) start ''up:80'' False no_kwargs
     = Some (Inr up_result, up_world)
   \<and> tick some_env start < timeout (waiter 2) \<and> 1 \<le> attempts up_result"
proof -
  have "tick some_env start < timeout (waiter 2)"
    by (simp add: some_env_def waiter_def)
  with attempts_at_least_one [OF run_up] run_up show ?thesis
    by simp
qed

subsection \<open>A target that is ready at once\<close>

text \<open>
  Claim C5, as stated, fails: a positive timeout does not make the loop run. Here the
  timeout is a millisecond, and a millisecond passes between two readings of the clock:
  the first test of the loop is \<open>0.001 < 0.001\<close>, and the result is the timeout after no
  attempt, although the host accepts connections.
\<close>

theorem positive_timeout_no_probe_counterexample:
  "wait_for_target slow_clock_env (waiter (1 / 1000)) start ''up:80'' False no_kwargs =
     Some (Inr \<lparr>success = False, target = ''up:80'', attempts = 0, elapsed = 1 / 500,
                error = Some ''Timeout after 0.001s''\<rparr>, \<lparr>now = 3 / 1000, calls = []\<rparr>)"
  by (simp add: wait_for_target_unfold after_reading_def waiter_def slow_clock_env_def
      some_env_def start_def str_int_def str_nat.simps decimals_def)

text \<open>
  Claim C5, amended. Let the target be a valid TCP target (not an HTTP URL, of the form
  host:port where the port holds no colon and is accepted by \<^verbatim>\<open>int\<close>), let
  \<^verbatim>\<open>check_tcp_port\<close> succeed for its host and port whenever it is called, and let the time
  between the reading of the start time and the first test of the loop be less than the
  timeout. Then \<^verbatim>\<open>wait_for_target\<close> returns success after exactly one attempt.
\<close>

theorem ready_on_first_probe:
  assumes "\<not> is_http tgt" and "tgt = host @ CHR '':'' # port" and "CHR '':'' \<notin> set port"
    and "py_int e port = Inr p"
    and "\<forall>w. fst (check_tcp_port e self host p w) = Inr True"
    and "tick e w < timeout self"
  shows "\<exists>el w'. wait_for_target e self w tgt verbose kw =
           Some (Inr \<lparr>success = True, target = tgt, attempts = 1, elapsed = el, error = None\<rparr>, w')"
proof -
  let ?w1 = "after_reading e (after_reading e w)"
  obtain w2 where "check_tcp_port e self host p ?w1 = (Inr True, w2)"
    using assms(5) by (metis prod.collapse)
  moreover have "rsplit tgt CHR '':'' = [host, port]"
    using assms(2,3) by (rule rsplit_parts)
  ultimately have "probe e self tgt kw ?w1 = (Inr True, w2)"
    using assms(1,4) by (simp add: probe_def)
  with assms(6) show ?thesis
    by (simp add: wait_for_target_unfold)
qed

theorem ready_on_first_probe_witness:
  "\<not> is_http ''up:80'' \<and> ''up:80'' = ''up'' @ CHR '':'' # ''80'' \<and> CHR '':'' \<notin> set ''80''
   \<and> py_int some_env ''80'' = Inr 80
   \<and> (\<forall>w. fst (check_tcp_port some_env (waiter 2) ''up'' 80 w) = Inr True)
   \<and> tick some_env start < timeout (waiter 2)
   \<and> (\<exists>el w'. wait_for_target some_env (waiter 2) start ''up:80'' False no_kwargs =
         Some (Inr \<lparr>success = True, target = ''up:80'', attempts = 1, elapsed = el,
                    error = None\<rparr>, w'))"
proof -
  have parts: "''up:80'' = ''up'' @ CHR '':'' # ''80''" "CHR '':'' \<notin> set ''80''"
    by simp_all
  have port: "py_int some_env ''80'' = Inr 80"
    by (simp add: some_env_def int_of_str_examples)
  have up: "\<forall>w. fst (check_tcp_port some_env (waiter 2) ''up'' 80 w) = Inr True"
    by (simp add: check_tcp_port_def some_env_def)
  have clock: "tick some_env start < timeout (waiter 2)"
    by (simp add: some_env_def waiter_def)
  from ready_on_first_probe [OF is_http_examples(2) parts port up clock, of False no_kwargs]
  show ?thesis
    using is_http_examples(2) port up clock by simp
qed

subsection \<open>A malformed target\<close>

text \<open>
  Claim C8, as stated, fails: with a positive timeout that has passed before the first
  test of the loop (a millisecond, with a clock read a millisecond apart), the target is
  never looked at, and the failure for a target without a colon is the timeout, not the
  invalid format.
\<close>

theorem positive_timeout_not_invalid_counterexample:
  "wait_for_target slow_clock_env (waiter (1 / 1000)) start ''invalid-target'' False no_kwargs =
     Some (Inr \<lparr>success = False, target = ''invalid-target'', attempts = 0, elapsed = 1 / 500,
                error = Some ''Timeout after 0.001s''\<rparr>, \<lparr>now = 3 / 1000, calls = []\<rparr>)"
  by (simp add: wait_for_target_unfold after_reading_def waiter_def slow_clock_env_def
      some_env_def start_def str_int_def str_nat.simps decimals_def)

text \<open>
  Claim C8, amended. Let the target be no HTTP URL and malformed (it has no colon, or
  \<^verbatim>\<open>int\<close> raises \<^verbatim>\<open>ValueError\<close> for the part after its last colon), and let the time
  between the reading of the start time and the first test of the loop be less than the
  timeout. Then \<^verbatim>\<open>wait_for_target\<close> returns a failure after one attempt with the error
  "Invalid target format. Use host:port or http(s)://url", and it has made no call to
  the outside: neither \<^verbatim>\<open>check_tcp_port\<close> nor \<^verbatim>\<open>check_http_endpoint\<close> connected or
  requested anything.
\<close>

theorem invalid_target_reported:
  assumes "\<not> is_http tgt"
    and "CHR '':'' \<notin> set tgt
         \<or> (\<exists>host port. tgt = host @ CHR '':'' # port \<and> CHR '':'' \<notin> set port
                \<and> py_int e port = Inl ValueError)"
    and "tick e w < timeout self"
  shows "\<exists>el w'. wait_for_target e self w tgt verbose kw =
           Some (Inr \<lparr>success = False, target = tgt, attempts = 1, elapsed = el,
                      error = Some ''Invalid target format. Use host:port or http(s)://url''\<rparr>, w')
         \<and> calls w' = calls w"
proof -
  let ?w1 = "after_reading e (after_reading e w)"
  from assms(2) have "probe e self tgt kw ?w1 = (Inl ValueError, ?w1)"
  proof
    assume "CHR '':'' \<notin> set tgt"
    then show ?thesis
      using assms(1) by (simp add: probe_def rsplit_def)
  next
    assume "\<exists>host port. tgt = host @ CHR '':'' # port \<and> CHR '':'' \<notin> set port
                \<and> py_int e port = Inl ValueError"
    then obtain host port where parts: "tgt = host @ CHR '':'' # port" "CHR '':'' \<notin> set port"
      and port: "py_int e port = Inl ValueError"
      by blast
    from parts have "rsplit tgt CHR '':'' = [host, port]"
      by (rule rsplit_parts)
    with port show ?thesis
      using assms(1) by (simp add: probe_def)
  qed
  with assms(3) show ?thesis
    by (simp add: wait_for_target_unfold invalid_target_format_def)
qed

theorem invalid_target_reported_witness:
  "\<not> is_http ''invalid-target'' \<and> CHR '':'' \<notin> set ''invalid-target''
   \<and> tick some_env start < timeout (waiter 1)
   \<and> (\<exists>el w'. wait_for_target some_env (waiter 1) start ''invalid-target'' False no_kwargs =
         Some (Inr \<lparr>success = False, target = ''invalid-target'', attempts = 1, elapsed = el,
                    error = Some ''Invalid target format. Use host:port or http(s)://url''\<rparr>,
               w')
         \<and> calls w' = calls start)
   \<and> \<not> is_http ''db:http'' \<and> ''db:http'' = ''db'' @ CHR '':'' # ''http''
   \<and> CHR '':'' \<notin> set ''http'' \<and> py_int some_env ''http'' = Inl ValueError
   \<and> (\<exists>el w'. wait_for_target some_env (waiter 1) start ''db:http'' False no_kwargs =
         Some (Inr \<lparr>success = False, target = ''db:http'', attempts = 1, elapsed = el,
                    error = Some ''Invalid target format. Use host:port or http(s)://url''\<rparr>,
               w')
         \<and> calls w' = calls start)"
proof -
  have no_colon: "CHR '':'' \<notin> set ''invalid-target''"
    by simp
  have clock: "tick some_env start < timeout (waiter 1)"
    by (simp add: some_env_def waiter_def)
  have parts: "''db:http'' = ''db'' @ CHR '':'' # ''http''" "CHR '':'' \<notin> set ''http''"
    by simp_all
  have port: "py_int some_env ''http'' = Inl ValueError"
    by (simp add: some_env_def int_of_str_examples)
  from parts port have bad_port: "\<exists>host port. ''db:http'' = host @ CHR '':'' # port
      \<and> CHR '':'' \<notin> set port \<and> py_int some_env port = Inl ValueError"
    by blast
  from invalid_target_reported [OF is_http_examples(1) disjI1 [OF no_colon] clock,
      of False no_kwargs]
    invalid_target_reported [OF is_http_examples(5) disjI2 [OF bad_port] clock,
      of False no_kwargs]
  show ?thesis
    using is_http_examples(1,5) clock port by simp
qed

subsection \<open>A target that never gets ready\<close>

text \<open>
  The loop ends when every iteration moves the clock on by at least a fixed positive
  amount: the probe takes at least \<open>d\<close> and the sleep at least \<open>m\<close>, a lower bound of all
  the intervals. The measure is the number of such steps that fit into what is left of
  the timeout.
\<close>

lemma now_announce [simp]: "now (announce e tgt verbose n i w) = now w"
  by (simp add: announce_def print_def)






subsection \<open>What a run does to the outside\<close>

lemma sleeps_append [simp]: "sleeps (xs @ ys) = sleeps xs @ sleeps ys"
  by (induction xs rule: sleeps.induct) simp_all

lemma probes_append [simp]: "probes (xs @ ys) = probes xs @ probes ys"
  by (induction xs rule: probes.induct) simp_all

lemma probe_http:
  assumes "is_http tgt" and "probe e self tgt kw w = (r, w1)"
  shows "calls w1 = calls w @ [HttpRequest (case http_method kw of None \<Rightarrow> ''GET'' | Some m \<Rightarrow> m)
                                 tgt (case headers kw of None \<Rightarrow> [] | Some h \<Rightarrow> h)]
         \<and> (\<exists>ok. r = Inr ok)"
  using assms
  by (auto simp add: probe_def check_http_endpoint_def Let_def split: prod.splits sum.splits)



lemma probe_calls:
  assumes "probe e self tgt kw w = (r, w1)"
  shows "\<exists>cs. calls w1 = calls w @ cs \<and> sleeps cs = []"
proof (cases "is_http tgt")
  case True
  from probe_http [OF True assms] show ?thesis by simp
next
  case False
  with assms show ?thesis
    by (auto simp add: probe_def check_tcp_port_def Let_def
        split: prod.splits sum.splits list.splits if_splits)
qed

lemma time_sleep_Inr:
  "time_sleep e i w = Inr w3 \<Longrightarrow> calls w3 = calls w @ [Sleep i]"
  by (auto simp add: time_sleep_def split: sum.splits)

lemma sleeps_probe: "probe e self tgt kw w = (r, w1) \<Longrightarrow> sleeps (calls w1) = sleeps (calls w)"
  using probe_calls [of e self tgt kw w r w1] by auto

lemma sleeps_announce: "sleeps (calls (announce e tgt verbose n i w)) = sleeps (calls w)"
  by (simp add: announce_def print_def)


lemma upt_shift: "j # [Suc j..<Suc (j + k)] = [j..<j + Suc k]"
  by (simp add: upt_conv_Cons)

lemma retry_loop_sleeps:
  assumes "retry_loop e self tgt verbose kw st n i w = Some y"
  shows "\<forall>j. i = backoff self j \<longrightarrow>
           (\<exists>k. sleeps (calls (snd y)) = sleeps (calls w) @ map (backoff self) [j..<j + k]
              \<and> (\<forall>r. fst y = Inr r \<longrightarrow> n + int k \<le> attempts r \<and> attempts r \<le> n + int k + 1))"
  using assms
proof (induction rule: retry_loop_induct)
  case (stop n i w)
  show ?case by (intro allI impI exI [of _ 0]) simp
next
  case (invalid n i w w1)
  show ?case by (intro allI impI exI [of _ 0]) (simp add: sleeps_probe [OF invalid(2)])
next
  case (raised n i w x w1)
  show ?case by (intro allI impI exI [of _ 0]) (simp add: sleeps_probe [OF raised(2)])
next
  case (ready n i w w1)
  show ?case by (intro allI impI exI [of _ 0]) (simp add: sleeps_probe [OF ready(2)])
next
  case (sleep_raised n i w w1 x)
  show ?case
    by (intro allI impI exI [of _ 0]) (simp add: sleeps_probe [OF sleep_raised(2)] sleeps_announce)
next
  case (retry n i w w1 w3 y)
  show ?case
  proof (intro allI impI)
    fix j assume i: "i = backoff self j"
    then have "min (i * 2) (max_interval self) = backoff self (Suc j)" by simp
    with retry.IH obtain k where
      k: "sleeps (calls (snd y)) = sleeps (calls w3) @ map (backoff self) [Suc j..<Suc j + k]"
        "\<forall>r. fst y = Inr r \<longrightarrow> n + 1 + int k \<le> attempts r \<and> attempts r \<le> n + 1 + int k + 1"
      by blast
    have "sleeps (calls w3) = sleeps (calls w) @ [backoff self j]"
      using time_sleep_Inr [OF retry(3)] sleeps_probe [OF retry(2)] i
      by (simp add: sleeps_announce)
    with k(1) have "sleeps (calls (snd y))
        = sleeps (calls w) @ map (backoff self) (j # [Suc j..<Suc (j + k)])"
      by simp
    then have "sleeps (calls (snd y)) = sleeps (calls w) @ map (backoff self) [j..<j + Suc k]"
      by (simp only: upt_shift)
    moreover from k(2)
    have "\<forall>r. fst y = Inr r \<longrightarrow> n + int (Suc k) \<le> attempts r \<and> attempts r \<le> n + int (Suc k) + 1"
      by auto
    ultimately show "\<exists>k. sleeps (calls (snd y)) = sleeps (calls w) @ map (backoff self) [j..<j + k]
        \<and> (\<forall>r. fst y = Inr r \<longrightarrow> n + int k \<le> attempts r \<and> attempts r \<le> n + int k + 1)"
      by blast
  qed
qed

lemma backoff_capped:
  assumes "initial_interval self = 1 / 2" and "max_interval self = 5"
  shows "map (backoff self) [0..<6] = [1 / 2, 1, 2, 4, 5, 5]" and "4 \<le> j \<Longrightarrow> backoff self j = 5"
proof -
  have b: "backoff self 0 = 1 / 2" "backoff self (Suc 0) = 1" "backoff self (Suc (Suc 0)) = 2"
    "backoff self (Suc (Suc (Suc 0))) = 4" "backoff self (Suc (Suc (Suc (Suc 0)))) = 5"
    using assms by simp_all
  have five: "backoff self (4 + k) = 5" for k
    using b(5) assms(2) by (induction k) (simp_all add: numeral_eq_Suc)
  have "[0..<6] = [0, Suc 0, Suc (Suc 0), Suc (Suc (Suc 0)), Suc (Suc (Suc (Suc 0))),
      Suc (Suc (Suc (Suc (Suc 0))))]"
    by (simp add: upt_rec numeral_eq_Suc)
  then show "map (backoff self) [0..<6] = [1 / 2, 1, 2, 4, 5, 5]"
    using b assms(2) by simp
  show "backoff self j = 5" if "4 \<le> j"
    using five [of "j - 4"] that by simp
qed

text \<open>
  Claim C7. The sleeps of one run of \<^verbatim>\<open>wait_for_target\<close> are, in order, the first \<open>k\<close>
  intervals of the backoff sequence (the initial interval, then each time the minimum of
  the double and the maximal interval), one sleep after each failed attempt: a result
  has \<open>k\<close> or \<open>k + 1\<close> attempts. With the initial interval 0.5 and the maximal interval 5
  the sequence is 0.5, 1, 2, 4, 5, 5 and stays at 5.
\<close>

theorem sleeps_follow_backoff:
  assumes "wait_for_target e self w tgt verbose kw = Some (res, w')"
  shows "(\<exists>k. sleeps (calls w') = sleeps (calls w) @ map (backoff self) [0..<k]
            \<and> (\<forall>r. res = Inr r \<longrightarrow> int k \<le> attempts r \<and> attempts r \<le> int k + 1))
         \<and> (initial_interval self = 1 / 2 \<and> max_interval self = 5 \<longrightarrow>
              map (backoff self) [0..<6] = [1 / 2, 1, 2, 4, 5, 5]
              \<and> (\<forall>j\<ge>4. backoff self j = 5))"
proof
  from assms have "retry_loop e self tgt verbose kw (now w) 0 (initial_interval self)
      (after_reading e w) = Some (res, w')"
    by (simp add: wait_for_target_def time_time_def)
  from retry_loop_sleeps [OF this, THEN spec [where x = 0]]
  show "\<exists>k. sleeps (calls w') = sleeps (calls w) @ map (backoff self) [0..<k]
            \<and> (\<forall>r. res = Inr r \<longrightarrow> int k \<le> attempts r \<and> attempts r \<le> int k + 1)"
    by simp
  show "initial_interval self = 1 / 2 \<and> max_interval self = 5 \<longrightarrow>
              map (backoff self) [0..<6] = [1 / 2, 1, 2, 4, 5, 5]
              \<and> (\<forall>j\<ge>4. backoff self j = 5)"
    using backoff_capped [of self] by blast
qed

theorem sleeps_follow_backoff_witness:
  "wait_for_target some_env (waiter 14) start ''down:5432'' False no_kwargs =
     Some (Inr \<lparr>success = False, target = ''down:5432'', attempts = 6, elapsed = 181 / 10,
                error = Some ''Timeout after 14.0s''\<rparr>,
           \<lparr>now = 181 / 10,
              calls = [TcpConnect ''down'' 5432, Sleep (1 / 2), TcpConnect ''down'' 5432, Sleep 1,
                       TcpConnect ''down'' 5432, Sleep 2, TcpConnect ''down'' 5432, Sleep 4,
                       TcpConnect ''down'' 5432, Sleep 5, TcpConnect ''down'' 5432, Sleep 5]\<rparr>)
   \<and> sleeps [TcpConnect ''down'' 5432, Sleep (1 / 2), TcpConnect ''down'' 5432, Sleep 1,
              TcpConnect ''down'' 5432, Sleep 2, TcpConnect ''down'' 5432, Sleep 4,
              TcpConnect ''down'' 5432, Sleep 5, TcpConnect ''down'' 5432, Sleep 5]
       = [1 / 2, 1, 2, 4, 5, 5]
   \<and> map (backoff (waiter 14)) [0..<6] = [1 / 2, 1, 2, 4, 5, 5]
   \<and> backoff (waiter 14) 9 = 5"
proof -
  have run: "wait_for_target some_env (waiter 14) start ''down:5432'' False no_kwargs =
     Some (Inr \<lparr>success = False, target = ''down:5432'', attempts = 6, elapsed = 181 / 10,
                error = Some ''Timeout after 14.0s''\<rparr>,
           \<lparr>now = 181 / 10,
              calls = [TcpConnect ''down'' 5432, Sleep (1 / 2), TcpConnect ''down'' 5432, Sleep 1,
                       TcpConnect ''down'' 5432, Sleep 2, TcpConnect ''down'' 5432, Sleep 4,
                       TcpConnect ''down'' 5432, Sleep 5, TcpConnect ''down'' 5432, Sleep 5]\<rparr>)"
    by (simp add: wait_for_target_unfold retry_loop.simps probe_def rsplit_examples
        int_of_str_examples is_http_examples check_tcp_port_def waiter_def some_env_def start_def
        announce_def time_sleep_def time_time_def after_reading_def str_int_def str_nat.simps
        decimals_def)
  from sleeps_follow_backoff [OF run]
  have "map (backoff (waiter 14)) [0..<6] = [1 / 2, 1, 2, 4, 5, 5]
      \<and> (\<forall>j\<ge>4. backoff (waiter 14) j = 5)"
    by (simp add: waiter_def)
  then have "map (backoff (waiter 14)) [0..<6] = [1 / 2, 1, 2, 4, 5, 5]"
    and "backoff (waiter 14) 9 = 5"
    by simp_all
  with run show ?thesis
    by simp
qed

subsection \<open>HTTP or TCP\<close>









subsection \<open>Serialisation\<close>

lemma round_half_even_close: "\<bar>of_int (round_half_even x) - x\<bar> \<le> 1 / 2"
  unfolding round_half_even_def Let_def by (auto simp: abs_if) linarith+

lemma py_round_close: "\<bar>py_round x 2 - x\<bar> \<le> 1 / 200"
proof -
  have "\<bar>of_int (round_half_even (x * 100)) - x * 100\<bar> \<le> 1 / 2"
    by (rule round_half_even_close)
  then show ?thesis
    unfolding py_round_def by (simp add: abs_if field_simps split: if_splits)
qed

lemma py_round_grid: "py_round x 2 * 100 = of_int (round_half_even (x * 100))"
  unfolding py_round_def by simp

text \<open>
  Claim C9. The dictionary of a WaitResult has exactly the keys \<open>success\<close>, \<open>target\<close>,
  \<open>attempts\<close>, \<open>elapsed_seconds\<close> and \<open>error\<close>; the first three and the last carry the
  fields of the result, and \<open>elapsed_seconds\<close> is the elapsed time rounded to two decimal
  places: a whole number of hundredths, at most half a hundredth away from \<open>elapsed\<close>.
\<close>

theorem to_dict_keys_and_values:
  "map fst (to_dict r) = [''success'', ''target'', ''attempts'', ''elapsed_seconds'', ''error'']
   \<and> map_of (to_dict r) ''success'' = Some (PyBool (success r))
   \<and> map_of (to_dict r) ''target'' = Some (PyStr (target r))
   \<and> map_of (to_dict r) ''attempts'' = Some (PyInt (attempts r))
   \<and> map_of (to_dict r) ''error'' = Some (case error r of None \<Rightarrow> PyNone | Some e \<Rightarrow> PyStr e)
   \<and> map_of (to_dict r) ''elapsed_seconds'' = Some (PyFloat (py_round (elapsed r) 2))
   \<and> py_round (elapsed r) 2 * 100 = of_int (round_half_even (elapsed r * 100))
   \<and> \<bar>py_round (elapsed r) 2 - elapsed r\<bar> \<le> 1 / 200"
  using py_round_close [of "elapsed r"] py_round_grid [of "elapsed r"]
  by (simp add: to_dict_def)

end
